theory Spec2Isabelle
  imports Complex_Main
begin

section \<open>Python values: exceptions and standard output\<close>

text \<open>
  The module \<^verbatim>\<open>utils/data_fetcher.py\<close> wraps every method body in
  \<^verbatim>\<open>try: ... except Exception as e: print(...); return <sentinel>\<close>.
  An exception is a value carrying its class name and the text \<^verbatim>\<open>str(e)\<close>;
  a call that may raise returns \<open>py_exception + 'a\<close> (\<open>Inl\<close> the exception).
  The values of \<open>py_exception\<close> are the instances of \<^verbatim>\<open>Exception\<close>, which
  is what the handlers catch.
  Standard output is the list of lines printed so far; a method takes it and returns it
  extended, so that "the error is logged" and "nothing was logged" are statements
  about values.

  Python floats are idealised as rationals: rounding, infinities and overflow are
  not modelled. \<open>None\<close> in a cell is pandas' \<^verbatim>\<open>NaN\<close> (a missing field).
\<close>

datatype py_exception = PyException (exc_class: string) (exc_str: string)

type_synonym stdout = "string list"

section \<open>The OHLCV series\<close>

text \<open>
  A series is the \<^verbatim>\<open>DataFrame\<close> the provider returns: one row per bar, with the
  timestamp of the row as index label and the five columns \<^verbatim>\<open>Open\<close>,
  \<^verbatim>\<open>High\<close>, \<^verbatim>\<open>Low\<close>, \<^verbatim>\<open>Close\<close>, \<^verbatim>\<open>Volume\<close>.
  Timestamps are wall-clock seconds since midnight of day 0. The flag
  \<open>datetime_index\<close> records whether the index of the frame is a
  \<^verbatim>\<open>DatetimeIndex\<close>: resampling is only defined on such a frame, and pandas
  raises \<^verbatim>\<open>TypeError\<close> on any other.
\<close>

type_synonym cell = "rat option"

record bar =
  ts :: int
  Open :: cell
  High :: cell
  Low :: cell
  Close :: cell
  Volume :: cell

record dataframe =
  datetime_index :: bool
  bars :: "bar list"

text \<open>\<^verbatim>\<open>DataFrame.empty\<close>: the frame has no rows.\<close>

definition empty_df :: "dataframe \<Rightarrow> bool" where
  "empty_df df = (bars df = [])"

text \<open>\<^verbatim>\<open>DataFrame.dropna()\<close>: the rows in which no field is missing, in order.\<close>

definition notna_bar :: "bar \<Rightarrow> bool" where
  "notna_bar b =
     (Open b \<noteq> None \<and> High b \<noteq> None \<and> Low b \<noteq> None \<and> Close b \<noteq> None \<and> Volume b \<noteq> None)"

definition dropna :: "dataframe \<Rightarrow> dataframe" where
  "dropna df = df\<lparr>bars := filter notna_bar (bars df)\<rparr>"

subsection \<open>The aggregations of pandas\<close>

text \<open>
  Every aggregation named in the source skips missing values:
  \<^verbatim>\<open>'first'\<close> and \<^verbatim>\<open>'last'\<close> are the first and last value present,
  \<^verbatim>\<open>'max'\<close> and \<^verbatim>\<open>'min'\<close> range over the values present, and all four are
  \<^verbatim>\<open>NaN\<close> on a group with no value present; \<^verbatim>\<open>'sum'\<close> adds the values
  present and is 0 on such a group.
\<close>

fun notna_values :: "cell list \<Rightarrow> rat list" where
  "notna_values [] = []"
| "notna_values (None # cs) = notna_values cs"
| "notna_values (Some v # cs) = v # notna_values cs"

fun fold1 :: "(rat \<Rightarrow> rat \<Rightarrow> rat) \<Rightarrow> rat list \<Rightarrow> cell" where
  "fold1 f [] = None"
| "fold1 f (v # vs) = Some (fold f vs v)"

definition agg_first :: "cell list \<Rightarrow> cell" where
  "agg_first cs = (case notna_values cs of [] \<Rightarrow> None | v # _ \<Rightarrow> Some v)"

definition agg_last :: "cell list \<Rightarrow> cell" where
  "agg_last cs = (case rev (notna_values cs) of [] \<Rightarrow> None | v # _ \<Rightarrow> Some v)"

definition agg_max :: "cell list \<Rightarrow> cell" where
  "agg_max cs = fold1 max (notna_values cs)"

definition agg_min :: "cell list \<Rightarrow> cell" where
  "agg_min cs = fold1 min (notna_values cs)"

definition agg_sum :: "cell list \<Rightarrow> cell" where
  "agg_sum cs = Some (sum_list (notna_values cs))"

subsection \<open>The 4-hour bins of \<^verbatim>\<open>resample('4H')\<close>\<close>

text \<open>
  pandas anchors the bins of a frequency that divides the day at midnight of the day of
  the first timestamp (\<^verbatim>\<open>origin='start_day'\<close>). Bins are closed on the left and
  labelled by their left edge. The first edge is the last anchored edge at or before the
  first timestamp, the last edge the first anchored edge after the last timestamp; every
  bin in between is produced, also one that no bar falls into.
\<close>

definition freq_4h :: int where
  "freq_4h = 14400"

definition normalize :: "int \<Rightarrow> int" where
  "normalize t = t - t mod 86400"

definition first_edge :: "int \<Rightarrow> int" where
  "first_edge first =
     (let foffset = (first - normalize first) mod freq_4h
      in if foffset > 0 then first - foffset else first)"

definition last_edge :: "int \<Rightarrow> int \<Rightarrow> int" where
  "last_edge first lst =
     (let loffset = (lst - normalize first) mod freq_4h
      in if loffset > 0 then lst + (freq_4h - loffset) else lst + freq_4h)"

definition bin_labels :: "int list \<Rightarrow> int list" where
  "bin_labels stamps =
     (case stamps of
        [] \<Rightarrow> []
      | t # _ \<Rightarrow>
          (let lo = first_edge t; hi = last_edge t (last stamps)
           in map (\<lambda>k. lo + int k * freq_4h) [0 ..< nat ((hi - lo) div freq_4h)]))"

definition in_bin :: "int \<Rightarrow> bar \<Rightarrow> bool" where
  "in_bin label b = (label \<le> ts b \<and> ts b < label + freq_4h)"

text \<open>
  The aggregation dictionary of the source:
  \<^verbatim>\<open>{'Open': 'first', 'High': 'max', 'Low': 'min', 'Close': 'last', 'Volume': 'sum'}\<close>.
\<close>

definition agg_bucket :: "int \<Rightarrow> bar list \<Rightarrow> bar" where
  "agg_bucket label bs =
     \<lparr>ts = label,
      Open = agg_first (map Open bs),
      High = agg_max (map High bs),
      Low = agg_min (map Low bs),
      Close = agg_last (map Close bs),
      Volume = agg_sum (map Volume bs)\<rparr>"

text \<open>
  \<^verbatim>\<open>hourly_data.resample('4H').agg({...})\<close>. A frame without a
  \<^verbatim>\<open>DatetimeIndex\<close> raises \<^verbatim>\<open>TypeError\<close>. Otherwise the rows are put in
  timestamp order (a stable sort, as the time grouper of pandas does), and one row is
  produced per bin.
\<close>

definition pd_resample_4h_agg :: "dataframe \<Rightarrow> py_exception + dataframe" where
  "pd_resample_4h_agg df =
     (if \<not> datetime_index df
      then Inl (PyException ''TypeError''
                  ''Only valid with DatetimeIndex, TimedeltaIndex or PeriodIndex'')
      else
        (let sorted = sort_key ts (bars df)
         in Inr \<lparr>datetime_index = True,
                 bars = map (\<lambda>label. agg_bucket label (filter (in_bin label) sorted))
                          (bin_labels (map ts sorted))\<rparr>))"

section \<open>The methods of \<^verbatim>\<open>DataFetcher\<close>\<close>

subsection \<open>\<^verbatim>\<open>_resample_to_4h\<close>\<close>

text \<open>
  The method is the \<^verbatim>\<open>try\<close>/\<^verbatim>\<open>except\<close> around the library call. It is
  first given with the library call as a parameter \<open>agg\<close>, so that what the handler
  does is stated for every way the aggregation may fail; \<open>resample_to_4h\<close> is the
  method with the aggregation of pandas.
\<close>

definition resample_to_4h_via ::
  "(dataframe \<Rightarrow> py_exception + dataframe) \<Rightarrow> dataframe \<Rightarrow> stdout \<Rightarrow> stdout \<times> dataframe" where
  "resample_to_4h_via agg hourly_data out =
     (case agg hourly_data of
        Inr resampled \<Rightarrow> (out, dropna resampled)
      | Inl e \<Rightarrow> (out @ [''Error resampling to 4h: '' @ exc_str e], hourly_data))"

definition resample_to_4h :: "dataframe \<Rightarrow> stdout \<Rightarrow> stdout \<times> dataframe" where
  "resample_to_4h = resample_to_4h_via pd_resample_4h_agg"

subsection \<open>\<^verbatim>\<open>get_stock_data\<close>\<close>

text \<open>
  The provider is a parameter: \<open>history symbol period interval\<close> is what
  \<^verbatim>\<open>yf.Ticker(symbol).history(period=period, interval=interval)\<close> does, a frame
  or an exception.
\<close>

type_synonym provider = "string \<Rightarrow> string \<Rightarrow> string \<Rightarrow> py_exception + dataframe"

definition interval_map :: "(string \<times> string) list" where
  "interval_map = [(''15m'', ''15m''), (''1h'', ''1h''), (''4h'', ''1h''), (''1d'', ''1d'')]"

definition yf_interval_of :: "string \<Rightarrow> string" where
  "yf_interval_of interval =
     (case map_of interval_map interval of None \<Rightarrow> interval | Some v \<Rightarrow> v)"

definition get_stock_data ::
  "provider \<Rightarrow> string \<Rightarrow> string \<Rightarrow> string \<Rightarrow> stdout \<Rightarrow> stdout \<times> dataframe option" where
  "get_stock_data history symbol period interval out =
     (let yf_interval = yf_interval_of interval
      in case history symbol period yf_interval of
           Inl e \<Rightarrow> (out @ [''Error fetching data for '' @ symbol @ '': '' @ exc_str e], None)
         | Inr data \<Rightarrow>
             if empty_df data then (out, None)
             else
               (let (out', data') =
                      (if interval = ''4h'' \<and> yf_interval = ''1h''
                       then resample_to_4h data out else (out, data))
                in (out', Some (dropna data'))))"

subsection \<open>\<^verbatim>\<open>validate_symbol\<close>\<close>

definition validate_symbol :: "provider \<Rightarrow> string \<Rightarrow> stdout \<Rightarrow> stdout \<times> bool" where
  "validate_symbol history symbol out =
     (case history symbol ''5d'' ''1d'' of
        Inl e \<Rightarrow> (out @ [''Error validating symbol '' @ symbol @ '': '' @ exc_str e], False)
      | Inr data \<Rightarrow> (out, \<not> empty_df data))"

subsection \<open>\<^verbatim>\<open>get_latest_price\<close>\<close>

text \<open>
  \<^verbatim>\<open>ticker.info\<close> is a dictionary from field names to numbers, or an exception.
  \<open>dict_get q k d\<close> is \<^verbatim>\<open>q.get(k, d)\<close>; \<open>q k\<close> itself is
  \<^verbatim>\<open>q.get(k)\<close>, with \<open>None\<close> for a missing key. Division raises
  \<^verbatim>\<open>ZeroDivisionError\<close> on a zero divisor, which HOL's \<open>/\<close> would hide.
\<close>

type_synonym quote = "string \<rightharpoonup> rat"

type_synonym info_provider = "string \<Rightarrow> py_exception + quote"

record snapshot =
  symbol :: string
  current_price :: rat
  previous_close :: rat
  change :: rat
  change_percent :: rat
  volume :: rat
  market_cap :: rat

definition dict_get :: "quote \<Rightarrow> string \<Rightarrow> rat \<Rightarrow> rat" where
  "dict_get q k d = (case q k of None \<Rightarrow> d | Some v \<Rightarrow> v)"

fun truthy :: "rat option \<Rightarrow> bool" where
  "truthy None = False"
| "truthy (Some v) = (v \<noteq> 0)"

definition py_div :: "rat \<Rightarrow> rat \<Rightarrow> py_exception + rat" where
  "py_div a b =
     (if b = 0 then Inl (PyException ''ZeroDivisionError'' ''division by zero'')
      else Inr (a / b))"

text \<open>
  The conditional expression
  \<^verbatim>\<open>((cur - prev) / info.get('previousClose', 1)) * 100 if info.get('previousClose') else 0\<close>:
  the condition is evaluated first, the division only when it is true.
\<close>

definition change_percent_expr :: "quote \<Rightarrow> py_exception + rat" where
  "change_percent_expr info =
     (if truthy (info ''previousClose'')
      then
        (case py_div (dict_get info ''currentPrice'' 0 - dict_get info ''previousClose'' 0)
                (dict_get info ''previousClose'' 1) of
           Inl e \<Rightarrow> Inl e
         | Inr d \<Rightarrow> Inr (d * 100))
      else Inr 0)"

definition latest_price_body :: "string \<Rightarrow> quote \<Rightarrow> py_exception + snapshot" where
  "latest_price_body symb info =
     (case change_percent_expr info of
        Inl e \<Rightarrow> Inl e
      | Inr pct \<Rightarrow>
          Inr \<lparr>symbol = symb,
               current_price = dict_get info ''currentPrice'' 0,
               previous_close = dict_get info ''previousClose'' 0,
               change = dict_get info ''currentPrice'' 0 - dict_get info ''previousClose'' 0,
               change_percent = pct,
               volume = dict_get info ''volume'' 0,
               market_cap = dict_get info ''marketCap'' 0\<rparr>)"

definition get_latest_price ::
  "info_provider \<Rightarrow> string \<Rightarrow> stdout \<Rightarrow> stdout \<times> snapshot option" where
  "get_latest_price ticker_info symb out =
     (case ticker_info symb of
        Inl e \<Rightarrow> (out @ [''Error fetching latest price for '' @ symb @ '': '' @ exc_str e], None)
      | Inr info \<Rightarrow>
          (case latest_price_body symb info of
             Inl e \<Rightarrow>
               (out @ [''Error fetching latest price for '' @ symb @ '': '' @ exc_str e], None)
           | Inr s \<Rightarrow> (out, Some s)))"

subsection \<open>\<^verbatim>\<open>check_market_hours\<close>\<close>

text \<open>
  \<^verbatim>\<open>datetime.now()\<close> is the naive local time: the fields of the wall clock, with
  no time zone. The day of the week is computed from the date as the standard library
  does (\<^verbatim>\<open>(toordinal() + 6) % 7\<close>, Monday 0), and two naive datetimes compare as
  the tuples of their fields. The month of a datetime is 1 to 12, so the table of days
  before a month is read within its range.
\<close>

record datetime =
  year :: nat
  month :: nat
  day :: nat
  hour :: nat
  minute :: nat
  second :: nat
  microsecond :: nat

definition is_leap :: "nat \<Rightarrow> bool" where
  "is_leap y = (y mod 4 = 0 \<and> (y mod 100 \<noteq> 0 \<or> y mod 400 = 0))"

definition days_before_year :: "nat \<Rightarrow> int" where
  "days_before_year yr =
     (let y = int yr - 1 in y * 365 + y div 4 - y div 100 + y div 400)"

definition DAYS_BEFORE_MONTH :: "int list" where
  "DAYS_BEFORE_MONTH = [-1, 0, 31, 59, 90, 120, 151, 181, 212, 243, 273, 304, 334]"

definition days_before_month :: "nat \<Rightarrow> nat \<Rightarrow> int" where
  "days_before_month yr m =
     DAYS_BEFORE_MONTH ! m + (if m > 2 \<and> is_leap yr then 1 else 0)"

definition toordinal :: "datetime \<Rightarrow> int" where
  "toordinal d = days_before_year (year d) + days_before_month (year d) (month d) + int (day d)"

definition weekday :: "datetime \<Rightarrow> int" where
  "weekday d = (toordinal d + 6) mod 7"

definition dt_tuple :: "datetime \<Rightarrow> nat list" where
  "dt_tuple d = [year d, month d, day d, hour d, minute d, second d, microsecond d]"

fun tuple_le :: "nat list \<Rightarrow> nat list \<Rightarrow> bool" where
  "tuple_le [] ys = True"
| "tuple_le (x # xs) [] = False"
| "tuple_le (x # xs) (y # ys) = (x < y \<or> (x = y \<and> tuple_le xs ys))"

definition dt_le :: "datetime \<Rightarrow> datetime \<Rightarrow> bool" where
  "dt_le a b = tuple_le (dt_tuple a) (dt_tuple b)"

text \<open>The clock is a parameter: the value of \<^verbatim>\<open>datetime.now()\<close>, or an exception.\<close>

definition check_market_hours :: "py_exception + datetime \<Rightarrow> stdout \<Rightarrow> stdout \<times> bool" where
  "check_market_hours clock out =
     (case clock of
        Inl e \<Rightarrow> (out @ [''Error checking market hours: '' @ exc_str e], False)
      | Inr now \<Rightarrow>
          (let market_open = now\<lparr>hour := 9, minute := 15, second := 0, microsecond := 0\<rparr>;
               market_close = now\<lparr>hour := 15, minute := 30, second := 0, microsecond := 0\<rparr>;
               is_weekday = (weekday now < 5);
               is_trading_hours = (dt_le market_open now \<and> dt_le now market_close)
           in (out, is_weekday \<and> is_trading_hours)))"

section \<open>Reference definitions and sample inputs\<close>

subsection \<open>Moving a series by whole days\<close>

definition shift_bar :: "int \<Rightarrow> bar \<Rightarrow> bar" where
  "shift_bar s b = b\<lparr>ts := ts b + s\<rparr>"

definition shift_df :: "int \<Rightarrow> dataframe \<Rightarrow> dataframe" where
  "shift_df s df = df\<lparr>bars := map (shift_bar s) (bars df)\<rparr>"

subsection \<open>The hourly series of one calendar day\<close>

text \<open>
  The series of the specification's example: day \<open>d\<close>, one bar at every hour
  00:00 to 23:00, and the values 1 to 24 in each of the five columns, so that the bar of
  hour \<open>h\<close> carries \<open>h + 1\<close> everywhere.
\<close>

definition hourly_bar :: "int \<Rightarrow> nat \<Rightarrow> bar" where
  "hourly_bar d h =
     (let v = Some (of_nat (h + 1))
      in \<lparr>ts = 86400 * d + 3600 * int h, Open = v, High = v, Low = v, Close = v, Volume = v\<rparr>)"

definition hourly_day :: "int \<Rightarrow> dataframe" where
  "hourly_day d = \<lparr>datetime_index = True, bars = map (hourly_bar d) [0 ..< 24]\<rparr>"

text \<open>
  The bucket the specification describes, written from its words: bucket \<open>k\<close> of the
  day starts \<open>4 * k\<close> hours after midnight, its contributing bars are those of the
  hours \<open>4 * k\<close> to \<open>4 * k + 3\<close>; open is the first bar's open, high the maximum of
  the highs, low the minimum of the lows, close the last bar's close, volume the sum of
  the volumes.
\<close>

definition contributing :: "int \<Rightarrow> nat \<Rightarrow> bar list" where
  "contributing d k = map (hourly_bar d) [4 * k ..< 4 * k + 4]"

definition spec_bucket :: "int \<Rightarrow> nat \<Rightarrow> bar" where
  "spec_bucket d k =
     (let bs = contributing d k
      in \<lparr>ts = 86400 * d + 14400 * int k,
          Open = Open (hd bs),
          High = Some (Max (set (map (the \<circ> High) bs))),
          Low = Some (Min (set (map (the \<circ> Low) bs))),
          Close = Close (last bs),
          Volume = Some (sum_list (map (the \<circ> Volume) bs))\<rparr>)"

subsection \<open>The 4-hour series in the specification's words\<close>

text \<open>
  "Dropping the rows with a missing field of \<open>resample_to_4h\<close> applied to the
  provider's 1-hour series."
\<close>

definition spec_series_4h :: "dataframe \<Rightarrow> dataframe" where
  "spec_series_4h hourly = dropna (snd (resample_to_4h hourly []))"

subsection \<open>Sample frames\<close>

text \<open>Two complete hourly bars, 09:15 and 10:15 of day 0.\<close>

definition two_hours :: dataframe where
  "two_hours =
     \<lparr>datetime_index = True,
      bars = [\<lparr>ts = 33300, Open = Some 1, High = Some 2, Low = Some 1, Close = Some 2,
               Volume = Some 5\<rparr>,
              \<lparr>ts = 36900, Open = Some 2, High = Some 3, Low = Some 2, Close = Some 3,
               Volume = Some 7\<rparr>]\<rparr>"

text \<open>
  The same two bars with one field missing in each: the open of the first, the close of
  the second.
\<close>

definition two_hours_nan :: dataframe where
  "two_hours_nan =
     \<lparr>datetime_index = True,
      bars = [\<lparr>ts = 33300, Open = None, High = Some 2, Low = Some 1, Close = Some 2,
               Volume = Some 5\<rparr>,
              \<lparr>ts = 36900, Open = Some 2, High = Some 3, Low = Some 2, Close = None,
               Volume = Some 7\<rparr>]\<rparr>"

subsection \<open>The latest price in the specification's words\<close>

text \<open>
  "change_percent = change / previous_close \<times> 100", with the division of Python, which
  raises on a zero divisor.
\<close>

definition spec_change_percent :: "rat \<Rightarrow> rat \<Rightarrow> py_exception + rat" where
  "spec_change_percent chg prev =
     (case py_div chg prev of Inl e \<Rightarrow> Inl e | Inr q \<Rightarrow> Inr (q * 100))"

text \<open>Sample quotes: both prices present; the previous close zero; the previous close absent.\<close>

definition quote_100_90 :: quote where
  "quote_100_90 = [''currentPrice'' \<mapsto> 100, ''previousClose'' \<mapsto> 90]"

definition quote_100_0 :: quote where
  "quote_100_0 = [''currentPrice'' \<mapsto> 100, ''previousClose'' \<mapsto> 0]"

definition quote_no_prev :: quote where
  "quote_no_prev = [''currentPrice'' \<mapsto> 100, ''volume'' \<mapsto> 5000]"

subsection \<open>Time of day\<close>

text \<open>The microseconds since midnight of a datetime; 09:15 is 33300 s, 15:30 is 55800 s.\<close>

definition us_of_day :: "datetime \<Rightarrow> nat" where
  "us_of_day d = ((hour d * 60 + minute d) * 60 + second d) * 1000000 + microsecond d"

section \<open>Properties of the methods\<close>

subsection \<open>Fetching a series: the absent result\<close>

text \<open>
  Claim C1. For every symbol, period and interval, \<open>get_stock_data\<close> returns
  \<open>None\<close> when the provider returns a frame with no rows, and when the provider call
  raises. In the second case the line
  \<^verbatim>\<open>Error fetching data for <symbol>: <error>\<close> is printed; in the first
  nothing is printed. The method has no exceptional result: whatever the provider does,
  it returns the output and an optional frame.
\<close>

theorem get_stock_data_absent:
  "(history symb period (yf_interval_of interval) = Inr data \<and> bars data = [] \<longrightarrow>
      get_stock_data history symb period interval out = (out, None)) \<and>
   (history symb period (yf_interval_of interval) = Inl e \<longrightarrow>
      get_stock_data history symb period interval out =
        (out @ [''Error fetching data for '' @ symb @ '': '' @ exc_str e], None))"
  by (simp add: get_stock_data_def empty_df_def)

theorem get_stock_data_absent_witness:
  "get_stock_data (\<lambda>s p i. Inr \<lparr>datetime_index = True, bars = []\<rparr>)
       ''RELIANCE.NS'' ''60d'' ''1d'' [] = ([], None) \<and>
   get_stock_data (\<lambda>s p i. Inl (PyException ''ConnectionError'' ''network unreachable''))
       ''RELIANCE.NS'' ''60d'' ''4h'' [] =
     ([''Error fetching data for RELIANCE.NS: network unreachable''], None)"
  using
    get_stock_data_absent [where history = "\<lambda>s p i. Inr \<lparr>datetime_index = True, bars = []\<rparr>"
      and symb = "''RELIANCE.NS''" and period = "''60d''" and interval = "''1d''" and out = "[]"
      and data = "\<lparr>datetime_index = True, bars = []\<rparr>"]
    get_stock_data_absent [where
      history = "\<lambda>s p i. Inl (PyException ''ConnectionError'' ''network unreachable'')"
      and symb = "''RELIANCE.NS''" and period = "''60d''" and interval = "''4h''" and out = "[]"
      and e = "PyException ''ConnectionError'' ''network unreachable''"]
  by simp

subsection \<open>Validating a symbol\<close>

text \<open>
  Claim C7. For every symbol, \<open>validate_symbol\<close> returns true exactly when the
  provider returns a frame with at least one bar for the period \<^verbatim>\<open>5d\<close> (daily
  bars). It returns false when the provider returns a frame with no rows, and when the
  provider call raises; the error is then printed.
\<close>

theorem validate_symbol_iff:
  "snd (validate_symbol history symb out) =
     (\<exists>data. history symb ''5d'' ''1d'' = Inr data \<and> bars data \<noteq> []) \<and>
   (history symb ''5d'' ''1d'' = Inr data \<and> bars data = [] \<longrightarrow>
      validate_symbol history symb out = (out, False)) \<and>
   (history symb ''5d'' ''1d'' = Inl e \<longrightarrow>
      validate_symbol history symb out =
        (out @ [''Error validating symbol '' @ symb @ '': '' @ exc_str e], False))"
  by (cases "history symb ''5d'' ''1d''") (simp_all add: validate_symbol_def empty_df_def)

theorem validate_symbol_iff_witness:
  "validate_symbol
     (\<lambda>s p i. Inr \<lparr>datetime_index = True,
        bars = [\<lparr>ts = 0, Open = Some 1, High = Some 2, Low = Some 1, Close = Some 2,
                 Volume = Some 5\<rparr>]\<rparr>) ''TCS.NS'' [] = ([], True) \<and>
   validate_symbol (\<lambda>s p i. Inr \<lparr>datetime_index = True, bars = []\<rparr>) ''TCS.NS'' [] = ([], False) \<and>
   validate_symbol (\<lambda>s p i. Inl (PyException ''KeyError'' ''unknown symbol'')) ''TCS.NS'' [] =
     ([''Error validating symbol TCS.NS: unknown symbol''], False)"
proof -
  let ?one = "\<lparr>datetime_index = True,
        bars = [\<lparr>ts = 0, Open = Some 1, High = Some 2, Low = Some 1, Close = Some 2,
                 Volume = Some 5\<rparr>]\<rparr>"
  have "snd (validate_symbol (\<lambda>s p i. Inr ?one) ''TCS.NS'' [])"
    using validate_symbol_iff [where history = "\<lambda>s p i. Inr ?one" and symb = "''TCS.NS''"
        and out = "[]"]
    by simp
  moreover have "fst (validate_symbol (\<lambda>s p i. Inr ?one) ''TCS.NS'' []) = []"
    by (simp add: validate_symbol_def)
  ultimately have a: "validate_symbol (\<lambda>s p i. Inr ?one) ''TCS.NS'' [] = ([], True)"
    by (simp add: prod_eq_iff)
  have b: "validate_symbol (\<lambda>s p i. Inr \<lparr>datetime_index = True, bars = []\<rparr>) ''TCS.NS'' [] =
      ([], False)"
    using validate_symbol_iff [where history = "\<lambda>s p i. Inr \<lparr>datetime_index = True, bars = []\<rparr>"
        and symb = "''TCS.NS''" and out = "[]" and data = "\<lparr>datetime_index = True, bars = []\<rparr>"]
    by simp
  have c: "validate_symbol (\<lambda>s p i. Inl (PyException ''KeyError'' ''unknown symbol''))
      ''TCS.NS'' [] = ([''Error validating symbol TCS.NS: unknown symbol''], False)"
    using validate_symbol_iff [where
        history = "\<lambda>s p i. Inl (PyException ''KeyError'' ''unknown symbol'')"
        and symb = "''TCS.NS''" and out = "[]" and e = "PyException ''KeyError'' ''unknown symbol''"]
    by simp
  from a b c show ?thesis by simp
qed

subsection \<open>Resampling: failure and the empty series\<close>

text \<open>
  Claim C8. For every hourly series, if the aggregation step raises, for whatever
  reason, \<open>_resample_to_4h\<close> prints the error and returns the series it was given,
  unchanged. The statement holds for every behaviour \<open>agg\<close> of the library call; the
  method itself is the instance \<open>agg = pd_resample_4h_agg\<close>.
\<close>

theorem resample_to_4h_failure:
  "agg hourly = Inl e \<Longrightarrow>
     resample_to_4h_via agg hourly out =
       (out @ [''Error resampling to 4h: '' @ exc_str e], hourly)"
  by (simp add: resample_to_4h_via_def)

theorem resample_to_4h_failure_witness:
  "resample_to_4h
     \<lparr>datetime_index = False,
      bars = [\<lparr>ts = 33300, Open = Some 1, High = Some 2, Low = Some 1, Close = Some 2,
               Volume = Some 5\<rparr>]\<rparr> [] =
   ([''Error resampling to 4h: Only valid with DatetimeIndex, TimedeltaIndex or PeriodIndex''],
    \<lparr>datetime_index = False,
      bars = [\<lparr>ts = 33300, Open = Some 1, High = Some 2, Low = Some 1, Close = Some 2,
               Volume = Some 5\<rparr>]\<rparr>)"
  unfolding resample_to_4h_def
  by (rule resample_to_4h_failure [where agg = pd_resample_4h_agg and out = "[]"
        and e = "PyException ''TypeError''
                   ''Only valid with DatetimeIndex, TimedeltaIndex or PeriodIndex''",
        simplified])
     (simp add: pd_resample_4h_agg_def)

text \<open>
  Claim C9. \<open>_resample_to_4h\<close> applied to a series with no rows returns a series
  with no rows, and has no exceptional result. On an empty frame with a
  \<^verbatim>\<open>DatetimeIndex\<close> the result is the frame itself and nothing is printed; on any
  other empty frame the library call raises, the handler prints the error and returns the
  frame it was given, which is empty.
\<close>

theorem resample_to_4h_empty:
  "bars hourly = [] \<Longrightarrow>
     bars (snd (resample_to_4h hourly out)) = [] \<and>
     (datetime_index hourly \<longrightarrow> resample_to_4h hourly out = (out, hourly))"
  by (cases hourly)
     (simp add: resample_to_4h_def resample_to_4h_via_def pd_resample_4h_agg_def bin_labels_def
        dropna_def)

theorem resample_to_4h_empty_witness:
  "resample_to_4h \<lparr>datetime_index = True, bars = []\<rparr> [] =
     ([], \<lparr>datetime_index = True, bars = []\<rparr>) \<and>
   bars (snd (resample_to_4h \<lparr>datetime_index = False, bars = []\<rparr> [])) = []"
  using resample_to_4h_empty [of "\<lparr>datetime_index = True, bars = []\<rparr>" "[]"]
    resample_to_4h_empty [of "\<lparr>datetime_index = False, bars = []\<rparr>" "[]"]
  by simp

subsection \<open>Resampling is invariant under a shift by whole days\<close>

lemma ts_shift_bar [simp]: "ts (shift_bar s b) = ts b + s"
  and Open_shift_bar [simp]: "Open (shift_bar s b) = Open b"
  and High_shift_bar [simp]: "High (shift_bar s b) = High b"
  and Low_shift_bar [simp]: "Low (shift_bar s b) = Low b"
  and Close_shift_bar [simp]: "Close (shift_bar s b) = Close b"
  and Volume_shift_bar [simp]: "Volume (shift_bar s b) = Volume b"
  by (simp_all add: shift_bar_def)

lemma insort_shift:
  "insort_key ts (shift_bar s b) (map (shift_bar s) xs) = map (shift_bar s) (insort_key ts b xs)"
  by (induction xs) simp_all

lemma sort_shift:
  "sort_key ts (map (shift_bar s) xs) = map (shift_bar s) (sort_key ts xs)"
  by (induction xs) (simp_all add: insort_shift)

lemma normalize_shift: "normalize (t + 86400 * d) = normalize t + 86400 * d"
  by (simp add: normalize_def)

lemma first_edge_shift: "first_edge (t + 86400 * d) = first_edge t + 86400 * d"
  by (simp add: first_edge_def normalize_shift Let_def)

lemma last_edge_shift: "last_edge (t + 86400 * d) (l + 86400 * d) = last_edge t l + 86400 * d"
  by (simp add: last_edge_def normalize_shift Let_def)

lemma bin_labels_shift:
  "bin_labels (map (\<lambda>t. t + 86400 * d) stamps) = map (\<lambda>t. t + 86400 * d) (bin_labels stamps)"
proof (cases stamps)
  case Nil
  then show ?thesis by (simp add: bin_labels_def)
next
  case (Cons t rest)
  have l: "last (map (\<lambda>t. t + 86400 * d) stamps) = last stamps + 86400 * d"
    using Cons by (simp add: last_map)
  show ?thesis
    unfolding bin_labels_def l
    using Cons by (simp add: first_edge_shift last_edge_shift Let_def del: last.simps)
qed

lemma filter_in_bin_shift:
  "filter (in_bin (l + s)) (map (shift_bar s) bs) = map (shift_bar s) (filter (in_bin l) bs)"
  by (induction bs) (simp_all add: in_bin_def)

lemma agg_bucket_shift:
  "agg_bucket (l + s) (map (shift_bar s) bs) = shift_bar s (agg_bucket l bs)"
  by (simp add: agg_bucket_def shift_bar_def comp_def)

lemma notna_shift [simp]: "notna_bar (shift_bar s b) = notna_bar b"
  by (simp add: notna_bar_def)

lemma dropna_shift: "dropna (shift_df s df) = shift_df s (dropna df)"
  by (simp add: dropna_def shift_df_def filter_map comp_def)

lemma pd_resample_shift:
  "pd_resample_4h_agg (shift_df (86400 * d) df) =
     map_sum id (shift_df (86400 * d)) (pd_resample_4h_agg df)"
proof -
  let ?s = "86400 * d"
  have m: "map ts (map (shift_bar ?s) xs) = map (\<lambda>t. t + ?s) (map ts xs)" for xs
    by (simp add: comp_def)
  have b: "map (\<lambda>label. agg_bucket label (filter (in_bin label) (map (shift_bar ?s) xs)))
             (map (\<lambda>t. t + ?s) ls) =
           map (shift_bar ?s) (map (\<lambda>label. agg_bucket label (filter (in_bin label) xs)) ls)"
    for xs ls
    by (simp add: comp_def filter_in_bin_shift agg_bucket_shift)
  show ?thesis
    unfolding pd_resample_4h_agg_def shift_df_def Let_def
    by (simp add: sort_shift m bin_labels_shift b del: map_map)
qed

lemma resample_to_4h_shift:
  "resample_to_4h (shift_df (86400 * d) df) out =
     map_prod id (shift_df (86400 * d)) (resample_to_4h df out)"
proof (cases "datetime_index df")
  case False
  then show ?thesis
    by (simp add: resample_to_4h_def resample_to_4h_via_def pd_resample_4h_agg_def shift_df_def)
next
  case True
  then obtain r where r: "pd_resample_4h_agg df = Inr r"
    by (simp add: pd_resample_4h_agg_def Let_def)
  then show ?thesis
    by (simp add: resample_to_4h_def resample_to_4h_via_def pd_resample_shift dropna_shift)
qed

lemma resample_to_4h_datetime:
  "datetime_index df \<Longrightarrow> resample_to_4h df out = (out, snd (resample_to_4h df []))"
  by (simp add: resample_to_4h_def resample_to_4h_via_def pd_resample_4h_agg_def Let_def)

lemma snd_resample_to_4h: "snd (resample_to_4h df out) = snd (resample_to_4h df [])"
  by (simp add: resample_to_4h_def resample_to_4h_via_def split: sum.splits)

subsection \<open>Resampling the hourly series of one day\<close>

lemma hourly_bar_shift: "hourly_bar d h = shift_bar (86400 * d) (hourly_bar 0 h)"
  by (simp add: hourly_bar_def shift_bar_def Let_def)

lemma hourly_day_shift: "hourly_day d = shift_df (86400 * d) (hourly_day 0)"
  by (simp add: hourly_day_def shift_df_def hourly_bar_shift [of d])

lemma contributing_shift: "contributing d k = map (shift_bar (86400 * d)) (contributing 0 k)"
  by (simp add: contributing_def hourly_bar_shift [of d])

lemma contributing_nonempty: "contributing d k \<noteq> []"
  by (simp add: contributing_def)

lemma spec_bucket_shift: "spec_bucket d k = shift_bar (86400 * d) (spec_bucket 0 k)"
proof -
  let ?s = "shift_bar (86400 * d)"
  let ?bs = "contributing 0 k"
  have hd: "Open (hd (map ?s ?bs)) = Open (hd ?bs)"
    by (simp add: hd_map contributing_nonempty)
  have lst: "Close (last (map ?s ?bs)) = Close (last ?bs)"
    by (simp add: last_map contributing_nonempty)
  have m: "map (the \<circ> High) (map ?s ?bs) = map (the \<circ> High) ?bs"
    "map (the \<circ> Low) (map ?s ?bs) = map (the \<circ> Low) ?bs"
    "map (the \<circ> Volume) (map ?s ?bs) = map (the \<circ> Volume) ?bs"
    by simp_all
  show ?thesis
    unfolding spec_bucket_def Let_def contributing_shift [of d] hd lst m
    by (simp add: shift_bar_def)
qed

lemma hourly_day_0:
  "resample_to_4h (hourly_day 0) [] =
     ([], \<lparr>datetime_index = True, bars = map (spec_bucket 0) [0 ..< 6]\<rparr>)"
  by code_simp

lemma spec_bucket_values:
  "map (spec_bucket 0) [0 ..< 6] =
    [\<lparr>ts = 0, Open = Some 1, High = Some 4, Low = Some 1, Close = Some 4, Volume = Some 10\<rparr>,
     \<lparr>ts = 14400, Open = Some 5, High = Some 8, Low = Some 5, Close = Some 8, Volume = Some 26\<rparr>,
     \<lparr>ts = 28800, Open = Some 9, High = Some 12, Low = Some 9, Close = Some 12,
      Volume = Some 42\<rparr>,
     \<lparr>ts = 43200, Open = Some 13, High = Some 16, Low = Some 13, Close = Some 16,
      Volume = Some 58\<rparr>,
     \<lparr>ts = 57600, Open = Some 17, High = Some 20, Low = Some 17, Close = Some 20,
      Volume = Some 74\<rparr>,
     \<lparr>ts = 72000, Open = Some 21, High = Some 24, Low = Some 21, Close = Some 24,
      Volume = Some 90\<rparr>]"
  by code_simp

lemma spec_bucket_map_shift:
  "map (spec_bucket d) [0 ..< 6] = map (shift_bar (86400 * d)) (map (spec_bucket 0) [0 ..< 6])"
  by (simp add: spec_bucket_shift [of d] del: upt_Suc)

text \<open>
  Claim C2. For the hourly series of one calendar day \<open>d\<close> (a bar at every hour
  00:00 to 23:00, values 1 to 24), \<open>_resample_to_4h\<close> prints nothing and returns
  exactly 6 rows, labelled midnight of \<open>d\<close> plus 0, 4, 8, 12, 16 and 20 hours. Row
  \<open>k\<close> is the bucket of the specification: open is the open of the first
  contributing bar, high the maximum of the highs, low the minimum of the lows, close the
  close of the last contributing bar, volume the sum of the four volumes. The values are
  written out in the second part of the statement.
\<close>

theorem resample_to_4h_hourly_day:
  "resample_to_4h (hourly_day d) out =
     (out, \<lparr>datetime_index = True, bars = map (spec_bucket d) [0 ..< 6]\<rparr>) \<and>
   map (spec_bucket d) [0 ..< 6] =
    [\<lparr>ts = 86400 * d, Open = Some 1, High = Some 4, Low = Some 1, Close = Some 4,
      Volume = Some 10\<rparr>,
     \<lparr>ts = 86400 * d + 14400, Open = Some 5, High = Some 8, Low = Some 5, Close = Some 8,
      Volume = Some 26\<rparr>,
     \<lparr>ts = 86400 * d + 28800, Open = Some 9, High = Some 12, Low = Some 9, Close = Some 12,
      Volume = Some 42\<rparr>,
     \<lparr>ts = 86400 * d + 43200, Open = Some 13, High = Some 16, Low = Some 13, Close = Some 16,
      Volume = Some 58\<rparr>,
     \<lparr>ts = 86400 * d + 57600, Open = Some 17, High = Some 20, Low = Some 17, Close = Some 20,
      Volume = Some 74\<rparr>,
     \<lparr>ts = 86400 * d + 72000, Open = Some 21, High = Some 24, Low = Some 21, Close = Some 24,
      Volume = Some 90\<rparr>]"
proof
  have dt: "datetime_index (hourly_day d)"
    by (simp add: hourly_day_def)
  have "resample_to_4h (hourly_day d) [] =
      map_prod id (shift_df (86400 * d)) (resample_to_4h (hourly_day 0) [])"
    by (subst hourly_day_shift) (rule resample_to_4h_shift)
  also have "\<dots> = ([], \<lparr>datetime_index = True,
      bars = map (shift_bar (86400 * d)) (map (spec_bucket 0) [0 ..< 6])\<rparr>)"
    by (simp only: hourly_day_0) (simp add: shift_df_def)
  finally have "snd (resample_to_4h (hourly_day d) []) =
      \<lparr>datetime_index = True, bars = map (spec_bucket d) [0 ..< 6]\<rparr>"
    by (simp only: spec_bucket_map_shift [of d]) simp
  with resample_to_4h_datetime [OF dt, of out]
  show "resample_to_4h (hourly_day d) out =
     (out, \<lparr>datetime_index = True, bars = map (spec_bucket d) [0 ..< 6]\<rparr>)"
    by simp
next
  show "map (spec_bucket d) [0 ..< 6] =
    [\<lparr>ts = 86400 * d, Open = Some 1, High = Some 4, Low = Some 1, Close = Some 4,
      Volume = Some 10\<rparr>,
     \<lparr>ts = 86400 * d + 14400, Open = Some 5, High = Some 8, Low = Some 5, Close = Some 8,
      Volume = Some 26\<rparr>,
     \<lparr>ts = 86400 * d + 28800, Open = Some 9, High = Some 12, Low = Some 9, Close = Some 12,
      Volume = Some 42\<rparr>,
     \<lparr>ts = 86400 * d + 43200, Open = Some 13, High = Some 16, Low = Some 13, Close = Some 16,
      Volume = Some 58\<rparr>,
     \<lparr>ts = 86400 * d + 57600, Open = Some 17, High = Some 20, Low = Some 17, Close = Some 20,
      Volume = Some 74\<rparr>,
     \<lparr>ts = 86400 * d + 72000, Open = Some 21, High = Some 24, Low = Some 21, Close = Some 24,
      Volume = Some 90\<rparr>]"
    by (simp only: spec_bucket_map_shift [of d] spec_bucket_values) (simp add: shift_bar_def)
qed

text \<open>The instance of day 19723, the first of January 2024.\<close>

theorem resample_to_4h_hourly_day_witness:
  "resample_to_4h (hourly_day 19723) [] =
     (([] :: stdout),
      \<lparr>datetime_index = True,
       bars =
        [\<lparr>ts = 1704067200, Open = Some 1, High = Some 4, Low = Some 1, Close = Some 4,
          Volume = Some 10\<rparr>,
         \<lparr>ts = 1704081600, Open = Some 5, High = Some 8, Low = Some 5, Close = Some 8,
          Volume = Some 26\<rparr>,
         \<lparr>ts = 1704096000, Open = Some 9, High = Some 12, Low = Some 9, Close = Some 12,
          Volume = Some 42\<rparr>,
         \<lparr>ts = 1704110400, Open = Some 13, High = Some 16, Low = Some 13, Close = Some 16,
          Volume = Some 58\<rparr>,
         \<lparr>ts = 1704124800, Open = Some 17, High = Some 20, Low = Some 17, Close = Some 20,
          Volume = Some 74\<rparr>,
         \<lparr>ts = 1704139200, Open = Some 21, High = Some 24, Low = Some 21, Close = Some 24,
          Volume = Some 90\<rparr>]\<rparr>)"
  using resample_to_4h_hourly_day [of 19723 "[]"]
  by simp

subsection \<open>Fetching a series: the result present\<close>

lemma yf_interval_of_4h: "yf_interval_of ''4h'' = ''1h''"
  by (simp add: yf_interval_of_def interval_map_def)

lemma get_stock_data_aggregated:
  "history symb period ''1h'' = Inr hourly \<Longrightarrow> bars hourly \<noteq> [] \<Longrightarrow>
     get_stock_data history symb period ''4h'' out =
       (fst (resample_to_4h hourly out), Some (spec_series_4h hourly))"
  by (simp add: get_stock_data_def yf_interval_of_4h empty_df_def spec_series_4h_def
      snd_resample_to_4h [of hourly out] split_beta Let_def)

lemma get_stock_data_cleaned:
  "history symb period (yf_interval_of interval) = Inr data \<Longrightarrow> bars data \<noteq> [] \<Longrightarrow>
     interval \<noteq> ''4h'' \<Longrightarrow>
     get_stock_data history symb period interval out = (out, Some (dropna data))"
  by (simp add: get_stock_data_def empty_df_def Let_def)

lemma fst_resample_to_4h_datetime:
  "datetime_index df \<Longrightarrow> fst (resample_to_4h df out) = out"
  by (simp add: resample_to_4h_def resample_to_4h_via_def pd_resample_4h_agg_def Let_def)

lemma spec_series_4h_two_hours:
  "spec_series_4h two_hours =
     \<lparr>datetime_index = True,
      bars = [\<lparr>ts = 28800, Open = Some 1, High = Some 3, Low = Some 1, Close = Some 3,
               Volume = Some 12\<rparr>]\<rparr>"
  by code_simp

lemma spec_series_4h_two_hours_nan:
  "spec_series_4h two_hours_nan =
     \<lparr>datetime_index = True,
      bars = [\<lparr>ts = 28800, Open = Some 2, High = Some 3, Low = Some 1, Close = Some 2,
               Volume = Some 12\<rparr>]\<rparr>"
  by code_simp

lemma spec_series_4h_no_rows:
  "spec_series_4h \<lparr>datetime_index = True, bars = []\<rparr> = \<lparr>datetime_index = True, bars = []\<rparr>"
  by (simp add: spec_series_4h_def resample_to_4h_def resample_to_4h_via_def
      pd_resample_4h_agg_def bin_labels_def dropna_def)

text \<open>
  Claim C4, as stated, read at a provider that returns a 1-hour frame with no rows: the
  claim equates the result with the cleaned 4-hour aggregation of that frame, the empty
  series; the method returns \<open>None\<close>, because it tests \<^verbatim>\<open>data.empty\<close> before
  it aggregates.
\<close>

theorem get_stock_data_4h_counterexample:
  "snd (get_stock_data (\<lambda>s p i. Inr \<lparr>datetime_index = True, bars = []\<rparr>)
          ''RELIANCE.NS'' ''60d'' ''4h'' []) = None \<and>
   spec_series_4h \<lparr>datetime_index = True, bars = []\<rparr> = \<lparr>datetime_index = True, bars = []\<rparr> \<and>
   snd (get_stock_data (\<lambda>s p i. Inr \<lparr>datetime_index = True, bars = []\<rparr>)
          ''RELIANCE.NS'' ''60d'' ''4h'' []) \<noteq>
     Some (spec_series_4h \<lparr>datetime_index = True, bars = []\<rparr>)"
  by (simp add: spec_series_4h_no_rows) (simp add: get_stock_data_def empty_df_def)

text \<open>
  Claim C4, amended. For every symbol and period, when the requested interval is
  \<^verbatim>\<open>4h\<close>, \<open>get_stock_data\<close> asks the provider for \<^verbatim>\<open>1h\<close> bars; whenever
  the provider returns a frame with at least one row, the result is the 4-hour
  aggregation of that frame (\<open>_resample_to_4h\<close>) with the rows containing a missing
  field removed; when the provider returns no rows or raises, the result is \<open>None\<close>.
\<close>

theorem get_stock_data_4h:
  "(history symb period ''1h'' = Inr hourly \<and> bars hourly \<noteq> [] \<longrightarrow>
      snd (get_stock_data history symb period ''4h'' out) = Some (spec_series_4h hourly)) \<and>
   (history symb period ''1h'' = Inr hourly \<and> bars hourly = [] \<longrightarrow>
      snd (get_stock_data history symb period ''4h'' out) = None) \<and>
   (history symb period ''1h'' = Inl e \<longrightarrow>
      snd (get_stock_data history symb period ''4h'' out) = None)"
  by (simp add: get_stock_data_aggregated)
     (simp add: get_stock_data_def yf_interval_of_4h empty_df_def)

theorem get_stock_data_4h_witness:
  "snd (get_stock_data
          (\<lambda>s p i. if i = ''1h'' then Inr two_hours
                    else Inl (PyException ''ValueError'' ''unexpected interval''))
          ''RELIANCE.NS'' ''60d'' ''4h'' []) =
     Some \<lparr>datetime_index = True,
           bars = [\<lparr>ts = 28800, Open = Some 1, High = Some 3, Low = Some 1, Close = Some 3,
                    Volume = Some 12\<rparr>]\<rparr> \<and>
   snd (get_stock_data (\<lambda>s p i. Inr \<lparr>datetime_index = True, bars = []\<rparr>)
          ''RELIANCE.NS'' ''60d'' ''4h'' []) = None \<and>
   snd (get_stock_data (\<lambda>s p i. Inl (PyException ''ConnectionError'' ''network unreachable''))
          ''RELIANCE.NS'' ''60d'' ''4h'' []) = None"
proof -
  let ?p = "\<lambda>(s::string) (p::string) i. if i = ''1h'' then Inr two_hours
                    else Inl (PyException ''ValueError'' ''unexpected interval'')"
  have "bars two_hours \<noteq> []"
    by (simp add: two_hours_def)
  then have a: "snd (get_stock_data ?p ''RELIANCE.NS'' ''60d'' ''4h'' []) =
      Some (spec_series_4h two_hours)"
    using get_stock_data_4h [where history = ?p and symb = "''RELIANCE.NS''"
        and period = "''60d''" and out = "[]" and hourly = two_hours]
    by simp
  have b: "snd (get_stock_data (\<lambda>s p i. Inr \<lparr>datetime_index = True, bars = []\<rparr>)
          ''RELIANCE.NS'' ''60d'' ''4h'' []) = None"
    using get_stock_data_4h [where history = "\<lambda>s p i. Inr \<lparr>datetime_index = True, bars = []\<rparr>"
        and symb = "''RELIANCE.NS''" and period = "''60d''" and out = "[]"
        and hourly = "\<lparr>datetime_index = True, bars = []\<rparr>"]
    by simp
  have c: "snd (get_stock_data (\<lambda>s p i. Inl (PyException ''ConnectionError'' ''network unreachable''))
          ''RELIANCE.NS'' ''60d'' ''4h'' []) = None"
    using get_stock_data_4h [where
        history = "\<lambda>s p i. Inl (PyException ''ConnectionError'' ''network unreachable'')"
        and symb = "''RELIANCE.NS''" and period = "''60d''" and out = "[]"
        and e = "PyException ''ConnectionError'' ''network unreachable''"]
    by simp
  from a b c show ?thesis
    by (simp only: spec_series_4h_two_hours)
qed

text \<open>
  Claim C10, as stated, read at the interval \<^verbatim>\<open>4h\<close>: every row of
  \<open>two_hours_nan\<close> has a missing field, and yet the result has a row. The aggregations
  skip missing values, so the bucket takes its open from the second bar and its close
  from the first, and has no missing field.
\<close>

theorem get_stock_data_some_counterexample:
  "list_all (\<lambda>b. \<not> notna_bar b) (bars two_hours_nan) \<and>
   snd (get_stock_data (\<lambda>s p i. Inr two_hours_nan) ''RELIANCE.NS'' ''60d'' ''4h'' []) =
     Some \<lparr>datetime_index = True,
           bars = [\<lparr>ts = 28800, Open = Some 2, High = Some 3, Low = Some 1, Close = Some 2,
                    Volume = Some 12\<rparr>]\<rparr>"
proof -
  have "bars two_hours_nan \<noteq> []"
    by (simp add: two_hours_nan_def)
  then have "snd (get_stock_data (\<lambda>s p i. Inr two_hours_nan) ''RELIANCE.NS'' ''60d'' ''4h'' []) =
      Some (spec_series_4h two_hours_nan)"
    by (simp add: get_stock_data_aggregated)
  moreover have "list_all (\<lambda>b. \<not> notna_bar b) (bars two_hours_nan)"
    by (simp add: two_hours_nan_def notna_bar_def)
  ultimately show ?thesis
    by (simp only: spec_series_4h_two_hours_nan)
qed

text \<open>
  Claim C10, amended. For every symbol, period and interval, whenever the provider
  returns a frame with at least one row, \<open>get_stock_data\<close> returns a series, not
  \<open>None\<close>, even if the cleaning step removes every row. For an interval other than
  \<^verbatim>\<open>4h\<close>, a provider frame whose rows all have a missing field yields the series
  with no rows. For \<^verbatim>\<open>4h\<close> the result is the cleaned 4-hour aggregation of the
  frame.
\<close>

theorem get_stock_data_some:
  assumes "history symb period (yf_interval_of interval) = Inr data" and "bars data \<noteq> []"
  shows "\<exists>out' series.
     get_stock_data history symb period interval out = (out', Some series) \<and>
     (interval \<noteq> ''4h'' \<longrightarrow> list_all (\<lambda>b. \<not> notna_bar b) (bars data) \<longrightarrow> bars series = []) \<and>
     (interval = ''4h'' \<longrightarrow> series = spec_series_4h data)"
proof (cases "interval = ''4h''")
  case True
  with assms show ?thesis
    by (simp add: get_stock_data_aggregated yf_interval_of_4h)
next
  case False
  have "list_all (\<lambda>b. \<not> notna_bar b) (bars data) \<Longrightarrow> filter notna_bar (bars data) = []"
    by (simp add: list_all_iff filter_empty_conv)
  with False assms show ?thesis
    by (simp add: get_stock_data_cleaned dropna_def)
qed

theorem get_stock_data_some_witness:
  "get_stock_data (\<lambda>s p i. Inr two_hours_nan) ''RELIANCE.NS'' ''60d'' ''1h'' [] =
     ([], Some \<lparr>datetime_index = True, bars = []\<rparr>) \<and>
   get_stock_data (\<lambda>s p i. Inr two_hours_nan) ''RELIANCE.NS'' ''60d'' ''4h'' [] =
     ([], Some \<lparr>datetime_index = True,
            bars = [\<lparr>ts = 28800, Open = Some 2, High = Some 3, Low = Some 1, Close = Some 2,
                     Volume = Some 12\<rparr>]\<rparr>)"
proof -
  have ne: "bars two_hours_nan \<noteq> []" and nan: "list_all (\<lambda>b. \<not> notna_bar b) (bars two_hours_nan)"
    and dt: "datetime_index two_hours_nan"
    by (simp_all add: two_hours_nan_def notna_bar_def)
  obtain out1 s1 where 1:
    "get_stock_data (\<lambda>s p i. Inr two_hours_nan) ''RELIANCE.NS'' ''60d'' ''1h'' [] = (out1, Some s1)"
    "bars s1 = []"
    using get_stock_data_some [where history = "\<lambda>s p i. Inr two_hours_nan" and interval = "''1h''"
        and symb = "''RELIANCE.NS''" and period = "''60d''" and out = "[]" and data = two_hours_nan]
      ne nan
    by auto
  obtain out2 s2 where 2:
    "get_stock_data (\<lambda>s p i. Inr two_hours_nan) ''RELIANCE.NS'' ''60d'' ''4h'' [] = (out2, Some s2)"
    "s2 = spec_series_4h two_hours_nan"
    using get_stock_data_some [where history = "\<lambda>s p i. Inr two_hours_nan" and interval = "''4h''"
        and symb = "''RELIANCE.NS''" and period = "''60d''" and out = "[]" and data = two_hours_nan]
      ne
    by auto
  have o1: "out1 = []" and d1: "datetime_index s1"
    using 1(1) ne dt
    by (auto simp add: get_stock_data_def yf_interval_of_def interval_map_def empty_df_def
        dropna_def)
  have o2: "out2 = []"
    using 2(1) ne fst_resample_to_4h_datetime [OF dt, of "[]"]
    by (simp add: get_stock_data_aggregated)
  have "s1 = \<lparr>datetime_index = True, bars = []\<rparr>"
    using 1(2) d1 by (cases s1) simp
  with 1 2 o1 o2 show ?thesis
    by (simp only: spec_series_4h_two_hours_nan)
qed

subsection \<open>The latest price\<close>

lemma change_percent_expr_value:
  "change_percent_expr info =
     (case info ''previousClose'' of
        None \<Rightarrow> Inr 0
      | Some prev \<Rightarrow>
          if prev = 0 then Inr 0 else Inr ((dict_get info ''currentPrice'' 0 - prev) / prev * 100))"
  by (simp add: change_percent_expr_def py_div_def dict_get_def split: option.splits)

text \<open>
  Claim C3, as stated, read at a quote with both prices present and the previous close
  zero: the formula of the claim divides by zero, and the method returns the snapshot
  with \<open>change_percent = 0\<close>, because it tests \<^verbatim>\<open>info.get('previousClose')\<close>
  before it divides.
\<close>

theorem get_latest_price_change_counterexample:
  "get_latest_price (\<lambda>s. Inr quote_100_0) ''RELIANCE.NS'' [] =
     ([], Some \<lparr>symbol = ''RELIANCE.NS'', current_price = 100, previous_close = 0,
                change = 100, change_percent = 0, volume = 0, market_cap = 0\<rparr>) \<and>
   spec_change_percent 100 0 = Inl (PyException ''ZeroDivisionError'' ''division by zero'')"
  by (simp add: get_latest_price_def latest_price_body_def change_percent_expr_value dict_get_def
      quote_100_0_def spec_change_percent_def py_div_def)

text \<open>
  Claim C3, amended. For every symbol whose quote has both \<^verbatim>\<open>currentPrice\<close> and
  \<^verbatim>\<open>previousClose\<close> present, the previous close not zero, \<open>get_latest_price\<close>
  prints nothing and returns the snapshot with \<open>change = current - previous\<close> and
  \<open>change_percent = change / previous \<times> 100\<close>; a missing \<^verbatim>\<open>volume\<close> or
  \<^verbatim>\<open>marketCap\<close> is 0. The instance 100 and 90 gives the change 10 and the
  percentage \<open>100 / 9\<close>, within a thousandth of 11.111.
\<close>

theorem get_latest_price_change:
  assumes "ticker_info symb = Inr info"
    and "info ''currentPrice'' = Some cur" and "info ''previousClose'' = Some prev"
    and "prev \<noteq> 0"
  shows "get_latest_price ticker_info symb out =
     (out, Some \<lparr>symbol = symb, current_price = cur, previous_close = prev,
                 change = cur - prev, change_percent = (cur - prev) / prev * 100,
                 volume = (case info ''volume'' of None \<Rightarrow> 0 | Some v \<Rightarrow> v),
                 market_cap = (case info ''marketCap'' of None \<Rightarrow> 0 | Some v \<Rightarrow> v)\<rparr>)"
  using assms
  by (simp add: get_latest_price_def latest_price_body_def change_percent_expr_value dict_get_def)

theorem get_latest_price_change_witness:
  "get_latest_price (\<lambda>s. Inr quote_100_90) ''RELIANCE.NS'' [] =
     ([], Some \<lparr>symbol = ''RELIANCE.NS'', current_price = 100, previous_close = 90,
                change = 10, change_percent = 100 / 9, volume = 0, market_cap = 0\<rparr>) \<and>
   \<bar>100 / 9 - 11111 / 1000\<bar> < (1 / 1000 :: rat)"
  using get_latest_price_change [where ticker_info = "\<lambda>s. Inr quote_100_90"
      and symb = "''RELIANCE.NS''" and info = quote_100_90 and cur = 100 and prev = 90
      and out = "[]"]
  by (simp add: quote_100_90_def)

text \<open>
  Claim C6. For every quote in which \<^verbatim>\<open>previousClose\<close> is zero or absent,
  \<open>get_latest_price\<close> prints nothing and returns a snapshot with
  \<open>change_percent = 0\<close>. The percentage expression has a value on every quote
  \<open>info'\<close>: its division is guarded by the truth value of
  \<^verbatim>\<open>info.get('previousClose')\<close>, so it is never taken on a zero or absent divisor
  and \<^verbatim>\<open>ZeroDivisionError\<close> never arises.
\<close>

theorem get_latest_price_zero_previous_close:
  assumes "ticker_info symb = Inr info"
    and "info ''previousClose'' = None \<or> info ''previousClose'' = Some 0"
  shows "get_latest_price ticker_info symb out =
     (out, Some \<lparr>symbol = symb, current_price = dict_get info ''currentPrice'' 0,
                 previous_close = 0, change = dict_get info ''currentPrice'' 0,
                 change_percent = 0,
                 volume = dict_get info ''volume'' 0,
                 market_cap = dict_get info ''marketCap'' 0\<rparr>) \<and>
     (\<exists>pct. change_percent_expr info' = Inr pct)"
  using assms
  by (auto simp add: get_latest_price_def latest_price_body_def change_percent_expr_value
      dict_get_def split: option.splits)

theorem get_latest_price_zero_previous_close_witness:
  "get_latest_price (\<lambda>s. Inr quote_100_0) ''RELIANCE.NS'' [] =
     ([], Some \<lparr>symbol = ''RELIANCE.NS'', current_price = 100, previous_close = 0,
                change = 100, change_percent = 0, volume = 0, market_cap = 0\<rparr>) \<and>
   get_latest_price (\<lambda>s. Inr quote_no_prev) ''RELIANCE.NS'' [] =
     ([], Some \<lparr>symbol = ''RELIANCE.NS'', current_price = 100, previous_close = 0,
                change = 100, change_percent = 0, volume = 5000, market_cap = 0\<rparr>)"
  using get_latest_price_zero_previous_close [where ticker_info = "\<lambda>s. Inr quote_100_0"
      and symb = "''RELIANCE.NS''" and info = quote_100_0 and out = "[]"]
    get_latest_price_zero_previous_close [where ticker_info = "\<lambda>s. Inr quote_no_prev"
      and symb = "''RELIANCE.NS''" and info = quote_no_prev and out = "[]"]
  by (simp add: quote_100_0_def quote_no_prev_def dict_get_def)

subsection \<open>Market hours\<close>

lemma dt_le_market_open:
  assumes "minute now < 60" and "second now < 60" and "microsecond now < 1000000"
  shows "dt_le (now\<lparr>hour := 9, minute := 15, second := 0, microsecond := 0\<rparr>) now
           \<longleftrightarrow> 33300000000 \<le> us_of_day now"
  using assms by (auto simp add: dt_le_def dt_tuple_def us_of_day_def)

lemma dt_le_market_close:
  assumes "minute now < 60" and "second now < 60" and "microsecond now < 1000000"
  shows "dt_le now (now\<lparr>hour := 15, minute := 30, second := 0, microsecond := 0\<rparr>)
           \<longleftrightarrow> us_of_day now \<le> 55800000000"
  using assms by (auto simp add: dt_le_def dt_tuple_def us_of_day_def)

text \<open>
  Claim C5. On a clock that reads \<open>now\<close> (a naive local datetime, used as it is,
  with no time zone conversion), \<open>check_market_hours\<close> prints nothing and returns
  true exactly when \<open>now\<close> falls on Monday to Friday (\<open>weekday now < 5\<close>) and its
  time of day lies between 09:15:00 and 15:30:00, both ends included. So it is false on
  every Saturday, true on a Wednesday at 10:00 and false on a Wednesday at 16:00.
\<close>

theorem check_market_hours_iff:
  assumes "minute now < 60" and "second now < 60" and "microsecond now < 1000000"
  shows "check_market_hours (Inr now) out =
     (out, weekday now < 5 \<and> 33300000000 \<le> us_of_day now \<and> us_of_day now \<le> 55800000000)"
  using assms
  by (simp add: check_market_hours_def Let_def dt_le_market_open dt_le_market_close)

text \<open>Saturday 6 January 2024 at 10:00; Wednesday 3 January 2024 at 10:00 and at 16:00.\<close>

theorem check_market_hours_iff_witness:
  "check_market_hours
     (Inr \<lparr>year = 2024, month = 1, day = 6, hour = 10, minute = 0, second = 0, microsecond = 0\<rparr>)
     [] = ([], False) \<and>
   check_market_hours
     (Inr \<lparr>year = 2024, month = 1, day = 3, hour = 10, minute = 0, second = 0, microsecond = 0\<rparr>)
     [] = ([], True) \<and>
   check_market_hours
     (Inr \<lparr>year = 2024, month = 1, day = 3, hour = 16, minute = 0, second = 0, microsecond = 0\<rparr>)
     [] = ([], False)"
  using
    check_market_hours_iff [of
      "\<lparr>year = 2024, month = 1, day = 6, hour = 10, minute = 0, second = 0, microsecond = 0\<rparr>" "[]"]
    check_market_hours_iff [of
      "\<lparr>year = 2024, month = 1, day = 3, hour = 10, minute = 0, second = 0, microsecond = 0\<rparr>" "[]"]
    check_market_hours_iff [of
      "\<lparr>year = 2024, month = 1, day = 3, hour = 16, minute = 0, second = 0, microsecond = 0\<rparr>" "[]"]
  by (simp add: us_of_day_def weekday_def toordinal_def days_before_year_def
      days_before_month_def DAYS_BEFORE_MONTH_def is_leap_def Let_def)

end
